theory Spec2Isabelle
  imports Main "HOL-Library.Word"
begin

section \<open>Go values shared by the packages\<close>

text \<open>
  A Go call either returns or panics (a nil pointer dereference, a write to a nil map).
  A panic is a value of the model, so that a statement "the function returns" has content.
\<close>

datatype 'a go_result = Panic | Returns 'a

section \<open>Error taxonomy: providers/errors/errors.go\<close>

text \<open>\<^verbatim>\<open>type ErrorReason string\<close>: any string can stand as a reason.\<close>

type_synonym ErrorReason = string

definition ErrorReasonUnknown :: ErrorReason where
  "ErrorReasonUnknown = []"

definition ErrorReasonUnauthorized :: ErrorReason where
  "ErrorReasonUnauthorized = ''Unauthorized''"

definition ErrorReasonNotFound :: ErrorReason where
  "ErrorReasonNotFound = ''NotFound''"

definition ErrorReasonInternalServerError :: ErrorReason where
  "ErrorReasonInternalServerError = ''InternalServerError''"

definition ErrorReasonServiceUnavailable :: ErrorReason where
  "ErrorReasonServiceUnavailable = ''ServiceUnavailable''"

definition ErrorReasonTooManyRequests :: ErrorReason where
  "ErrorReasonTooManyRequests = ''TooManyRequests''"

definition ErrorReasonBadRequest :: ErrorReason where
  "ErrorReasonBadRequest = ''BadRequest''"

text \<open>\<^verbatim>\<open>type ErrorDetails struct { RetryAfterSeconds int32 }\<close>\<close>

record ErrorDetails =
  RetryAfterSeconds :: "32 word"

text \<open>
  \<^verbatim>\<open>ErrorStatus\<close> holds the original error, and an error may be an
  \<^verbatim>\<open>*OperationError\<close> holding a \<^verbatim>\<open>*ErrorStatus\<close>: the two types are mutually
  recursive. A Go \<^verbatim>\<open>error\<close> is \<^verbatim>\<open>nil\<close>, a value of some type without a
  \<^verbatim>\<open>Status\<close> method (represented by its message), or an \<^verbatim>\<open>*OperationError\<close>, the
  only type of the package with the method set of \<^verbatim>\<open>Interface\<close>. The pointer
  \<^verbatim>\<open>ErrStatus\<close> may be nil (\<open>None\<close>); a nil \<^verbatim>\<open>*OperationError\<close> behaves the same
  way in every function below (the first dereference panics) and is \<open>OperationError None\<close>
  too.
\<close>

datatype ErrorStatus =
  ErrorStatus (Reason: ErrorReason) (Details: "ErrorDetails option")
    (Message: string) (OrigErr: go_error)
and go_error =
  NilError
| OtherError string
| OperationError (ErrStatus: "ErrorStatus option")

text \<open>Whether the dynamic type of the error has the \<^verbatim>\<open>Status\<close> method.\<close>

fun implements_Interface :: "go_error \<Rightarrow> bool" where
  "implements_Interface (OperationError _) = True"
| "implements_Interface _ = False"

text \<open>
  \<^verbatim>\<open>switch t := err.(type) { case Interface: return t.Status().Reason }; return ErrorReasonUnknown\<close>
\<close>

fun reasonForError :: "go_error \<Rightarrow> ErrorReason go_result" where
  "reasonForError (OperationError (Some st)) = Returns (Reason st)"
| "reasonForError (OperationError None) = Panic"
| "reasonForError _ = Returns ErrorReasonUnknown"

definition IsNotFound :: "go_error \<Rightarrow> bool go_result" where
  "IsNotFound err =
     (case reasonForError err of
        Panic \<Rightarrow> Panic
      | Returns r \<Rightarrow> Returns (r = ErrorReasonNotFound))"

text \<open>
  The switch of \<^verbatim>\<open>IsRetryable\<close> has three cases; the first two have empty bodies. A Go
  case does not fall through to the next one, so an empty case leaves the switch and the
  function reaches its final \<^verbatim>\<open>return false\<close>.
\<close>

definition IsRetryable :: "go_error \<Rightarrow> bool go_result" where
  "IsRetryable err =
     (case reasonForError err of
        Panic \<Rightarrow> Panic
      | Returns r \<Rightarrow>
          if r = ErrorReasonTooManyRequests then Returns False
          else if r = ErrorReasonServiceUnavailable then Returns False
          else if r = ErrorReasonInternalServerError then Returns True
          else Returns False)"

text \<open>
  \<^verbatim>\<open>SuggestsClientDelay\<close>: \<^verbatim>\<open>int(x)\<close> of an \<^verbatim>\<open>int32\<close> is its signed value, and
  \<^verbatim>\<open>x > 0\<close> compares signed.
\<close>

fun SuggestsClientDelay :: "go_error \<Rightarrow> (int \<times> bool) go_result" where
  "SuggestsClientDelay (OperationError None) = Panic"
| "SuggestsClientDelay (OperationError (Some st)) =
     (case Details st of
        Some d \<Rightarrow>
          if Reason st = ErrorReasonServiceUnavailable
          then Returns (sint (RetryAfterSeconds d), True)
          else if 0 < sint (RetryAfterSeconds d)
          then Returns (sint (RetryAfterSeconds d), True)
          else Returns (0, False)
      | None \<Rightarrow> Returns (0, False))"
| "SuggestsClientDelay _ = Returns (0, False)"

text \<open>The constructors. \<^verbatim>\<open>int32(retryAfterSeconds)\<close> keeps the low 32 bits.\<close>

definition NewNotFound :: "string \<Rightarrow> go_error \<Rightarrow> go_error" where
  "NewNotFound message err =
     OperationError (Some (ErrorStatus ErrorReasonNotFound None message err))"

definition NewUnauthorized :: "string \<Rightarrow> go_error \<Rightarrow> go_error" where
  "NewUnauthorized message err =
     OperationError (Some (ErrorStatus ErrorReasonUnauthorized None message err))"

definition NewBadRequest :: "string \<Rightarrow> go_error \<Rightarrow> go_error" where
  "NewBadRequest message err =
     OperationError (Some (ErrorStatus ErrorReasonBadRequest None message err))"

definition NewTooManyRequests :: "string \<Rightarrow> int \<Rightarrow> go_error \<Rightarrow> go_error" where
  "NewTooManyRequests message retryAfterSeconds err =
     OperationError (Some (ErrorStatus ErrorReasonTooManyRequests
       (Some \<lparr>RetryAfterSeconds = word_of_int retryAfterSeconds\<rparr>) message err))"

definition NewInternalServerError :: "string \<Rightarrow> int \<Rightarrow> go_error \<Rightarrow> go_error" where
  "NewInternalServerError message retryAfterSeconds err =
     OperationError (Some (ErrorStatus ErrorReasonInternalServerError
       (Some \<lparr>RetryAfterSeconds = word_of_int retryAfterSeconds\<rparr>) message err))"

definition NewServiceUnavailable :: "string \<Rightarrow> int \<Rightarrow> go_error \<Rightarrow> go_error" where
  "NewServiceUnavailable message retryAfterSeconds err =
     OperationError (Some (ErrorStatus ErrorReasonServiceUnavailable
       (Some \<lparr>RetryAfterSeconds = word_of_int retryAfterSeconds\<rparr>) message err))"

definition NewUnknownError :: "string \<Rightarrow> go_error \<Rightarrow> go_error" where
  "NewUnknownError message err =
     OperationError (Some (ErrorStatus ErrorReasonUnknown None message err))"

section \<open>Kubernetes API values used by the prober and the managers\<close>

text \<open>
  The structs of \<^verbatim>\<open>k8s.io/api/core/v1\<close>, \<^verbatim>\<open>intstr\<close> and \<^verbatim>\<open>kubecontainer\<close>,
  with the fields the code reads. A field whose name several structs share carries the
  struct's name. \<^verbatim>\<open>int32\<close> fields are 32-bit words; a Go \<^verbatim>\<open>int\<close> (64 bits) that is
  only compared and printed is an \<open>int\<close>.
\<close>

record ContainerPort =
  ContainerPort_Name :: string
  ContainerPort :: "32 word"

record EnvVar =
  EnvVar_Name :: string
  EnvVar_Value :: string

record Container =
  Container_Name :: string
  Ports :: "ContainerPort list"
  Env :: "EnvVar list"

text \<open>\<^verbatim>\<open>intstr.IntOrString\<close>; \<^verbatim>\<open>Type\<close> is an integer type with \<^verbatim>\<open>Int = 0\<close>, \<^verbatim>\<open>String = 1\<close>.\<close>

record IntOrString =
  IntOrString_Type :: int
  IntVal :: "32 word"
  StrVal :: string

definition intstr_Int :: int where
  "intstr_Int = 0"

definition intstr_String :: int where
  "intstr_String = 1"

record HTTPHeader =
  HTTPHeader_Name :: string
  HTTPHeader_Value :: string

record ExecAction =
  Command :: "string list"

record HTTPGetAction =
  HTTPGet_Path :: string
  HTTPGet_Port :: IntOrString
  HTTPGet_Host :: string
  HTTPGet_Scheme :: string
  HTTPHeaders :: "HTTPHeader list"

record TCPSocketAction =
  TCPSocket_Port :: IntOrString
  TCPSocket_Host :: string

text \<open>\<^verbatim>\<open>v1.Probe\<close> with its embedded handler: each variant is a pointer, nil when absent.\<close>

record Probe =
  Exec :: "ExecAction option"
  HTTPGet :: "HTTPGetAction option"
  TCPSocket :: "TCPSocketAction option"
  TimeoutSeconds :: "32 word"

record ContainerStatus =
  ContainerStatus_Name :: string
  ContainerStatus_ContainerID :: string

text \<open>\<^verbatim>\<open>v1.PodPhase\<close> is a string type.\<close>

definition PodSucceeded :: string where
  "PodSucceeded = ''Succeeded''"

definition PodFailed :: string where
  "PodFailed = ''Failed''"

record PodStatus =
  Phase :: string
  PodStatus_Reason :: string
  PodIP :: string
  ContainerStatuses :: "ContainerStatus list"

text \<open>The deletion timestamp is a pointer; only whether it is nil is read.\<close>

record Pod =
  Namespace :: string
  Pod_Name :: string
  UID :: string
  DeletionTimestamp :: "int option"
  Pod_Status :: PodStatus

record ContainerID =
  ContainerID_Type :: string
  ID :: string

definition ContainerID_String :: "ContainerID \<Rightarrow> string" where
  "ContainerID_String c = ContainerID_Type c @ ''://'' @ ID c"

text \<open>\<^verbatim>\<open>format.Pod\<close>: \<^verbatim>\<open>name_namespace(uid)\<close>.\<close>

definition format_Pod :: "Pod \<Rightarrow> string" where
  "format_Pod pod = Pod_Name pod @ ''_'' @ Namespace pod @ ''('' @ UID pod @ '')''"

section \<open>Go library functions the prober calls\<close>

text \<open>
  \<^verbatim>\<open>strconv.Itoa\<close> and \<^verbatim>\<open>strconv.Atoi\<close> for a 64-bit \<^verbatim>\<open>int\<close>, after the standard
  library: an optional sign and at least one decimal digit, nothing else; a value outside
  the range comes back clamped, with an error. The text of an error is its message (the
  quoting of unprintable bytes by \<^verbatim>\<open>strconv.Quote\<close> is left out of the message).
\<close>

fun decimal :: "nat \<Rightarrow> string" where
  "decimal n =
     (if n < 10 then [''0123456789'' ! n]
      else decimal (n div 10) @ [''0123456789'' ! (n mod 10)])"

declare decimal.simps [simp del]

definition strconv_Itoa :: "int \<Rightarrow> string" where
  "strconv_Itoa i = (if i < 0 then CHR ''-'' # decimal (nat (- i)) else decimal (nat i))"

definition is_digit :: "char \<Rightarrow> bool" where
  "is_digit ch = (48 \<le> (of_char ch :: nat) \<and> (of_char ch :: nat) \<le> 57)"

fun parse_digits :: "string \<Rightarrow> nat \<Rightarrow> nat option" where
  "parse_digits [] n = Some n"
| "parse_digits (ch # rest) n =
     (if is_digit ch then parse_digits rest (n * 10 + (of_char ch - 48)) else None)"

definition syntaxError :: "string \<Rightarrow> go_error" where
  "syntaxError s =
     OtherError (''strconv.Atoi: parsing '' @ [CHR 0x22] @ s @ [CHR 0x22] @ '': invalid syntax'')"

definition rangeError :: "string \<Rightarrow> go_error" where
  "rangeError s =
     OtherError (''strconv.Atoi: parsing '' @ [CHR 0x22] @ s @ [CHR 0x22] @ '': value out of range'')"

definition strconv_Atoi :: "string \<Rightarrow> int \<times> go_error" where
  "strconv_Atoi s =
     (let neg = (s \<noteq> [] \<and> hd s = CHR ''-'');
          body = (if s \<noteq> [] \<and> (hd s = CHR ''-'' \<or> hd s = CHR ''+'') then tl s else s)
      in if body = [] then (0, syntaxError s)
         else case parse_digits body 0 of
                None \<Rightarrow> (0, syntaxError s)
              | Some n \<Rightarrow>
                  let v = (if neg then - int n else int n)
                  in if v > 2 ^ 63 - 1 then (2 ^ 63 - 1, rangeError s)
                     else if v < - (2 ^ 63) then (- (2 ^ 63), rangeError s)
                     else (v, NilError))"

text \<open>\<^verbatim>\<open>net.JoinHostPort\<close>: a host with a colon (an IPv6 literal) is bracketed.\<close>

definition net_JoinHostPort :: "string \<Rightarrow> string \<Rightarrow> string" where
  "net_JoinHostPort host port =
     (if CHR '':'' \<in> set host \<or> CHR ''%'' \<in> set host
      then ''['' @ host @ '']:'' @ port
      else host @ '':'' @ port)"

text \<open>\<^verbatim>\<open>url.URL\<close>, with the fields \<^verbatim>\<open>url.Parse\<close> fills from a path.\<close>

record URL =
  Scheme :: string
  Opaque :: string
  URL_Host :: string
  URL_Path :: string
  RawQuery :: string
  Fragment :: string

text \<open>\<^verbatim>\<open>http.Header\<close> is \<^verbatim>\<open>map[string][]string\<close>.\<close>

type_synonym Header = "string \<rightharpoonup> string list"

section \<open>The probe engine: manager/prober/prober.go\<close>

text \<open>
  \<^verbatim>\<open>probe.Result\<close> (package \<^verbatim>\<open>k8s.io/kubernetes/pkg/probe\<close>) is a string type; the zero
  value of a \<^verbatim>\<open>var result probe.Result\<close> is the empty string. \<^verbatim>\<open>results.Result\<close> is the
  result type of the prober's result manager.
\<close>

type_synonym probe_Result = string

definition probe_Success :: probe_Result where
  "probe_Success = ''success''"

definition probe_Failure :: probe_Result where
  "probe_Failure = ''failure''"

definition probe_Unknown :: probe_Result where
  "probe_Unknown = ''unknown''"

datatype results_Result = results_Unknown | results_Success | results_Failure

datatype probeType = Liveness | Readiness

text \<open>What one probe attempt returns: \<^verbatim>\<open>(probe.Result, string, error)\<close>.\<close>

type_synonym attempt = "probe_Result \<times> string \<times> go_error"

text \<open>
  The probe primitives act on the world outside the process (the network, the container
  runtime), of some type \<open>'w\<close>: a primitive takes the world and returns its answer and the
  world after the call, so two calls with the same arguments may answer differently. The
  \<^verbatim>\<open>prober\<close> struct holds the primitives and the collaborators the methods use; the
  library functions whose results the claims do not depend on (\<^verbatim>\<open>url.Parse\<close>,
  \<^verbatim>\<open>strings.ToLower\<close>, \<^verbatim>\<open>kubecontainer.ExpandContainerCommandOnlyStatic\<close>) are fields
  too.
\<close>

datatype probe_call =
  ExecCall Container ContainerID "string list" int
| HTTPCall URL Header int
| TCPCall string int int

datatype event =
  ProbeErrored string probeType go_error
| ProbeFailed string probeType string

record 'w prober =
  exec_Probe :: "Container \<Rightarrow> ContainerID \<Rightarrow> string list \<Rightarrow> int \<Rightarrow> 'w \<Rightarrow> attempt \<times> 'w"
  http_Probe :: "URL \<Rightarrow> Header \<Rightarrow> int \<Rightarrow> 'w \<Rightarrow> attempt \<times> 'w"
  tcp_Probe :: "string \<Rightarrow> int \<Rightarrow> int \<Rightarrow> 'w \<Rightarrow> attempt \<times> 'w"
  GetRef :: "ContainerID \<Rightarrow> string option"
  url_Parse :: "string \<Rightarrow> URL option"
  strings_ToLower :: "string \<Rightarrow> string"
  ExpandContainerCommandOnlyStatic :: "string list \<Rightarrow> EnvVar list \<Rightarrow> string list"

text \<open>
  The state a probe runs in: the world, the primitive invocations made so far, in order,
  and the events handed to the recorder.
\<close>

record 'w probe_state =
  world :: 'w
  calls :: "probe_call list"
  events :: "event list"

fun dispatch :: "'w prober \<Rightarrow> probe_call \<Rightarrow> 'w \<Rightarrow> attempt \<times> 'w" where
  "dispatch pb (ExecCall container containerID command timeout) =
     exec_Probe pb container containerID command timeout"
| "dispatch pb (HTTPCall url headers timeout) = http_Probe pb url headers timeout"
| "dispatch pb (TCPCall host port timeout) = tcp_Probe pb host port timeout"

text \<open>A primitive is only ever called through \<open>invoke\<close>, which records the call.\<close>

definition invoke :: "'w prober \<Rightarrow> probe_call \<Rightarrow> 'w probe_state \<Rightarrow> attempt \<times> 'w probe_state" where
  "invoke pb c st =
     (case dispatch pb c (world st) of
        (r, w') \<Rightarrow> (r, st\<lparr>world := w', calls := calls st @ [c]\<rparr>))"

text \<open>
  \<^verbatim>\<open>buildHeader\<close>: the loop over the list, the map as its accumulator. Reading a missing
  key of a Go map gives the nil slice.
\<close>

fun buildHeader_loop :: "HTTPHeader list \<Rightarrow> Header \<Rightarrow> Header" where
  "buildHeader_loop [] headers = headers"
| "buildHeader_loop (header # rest) headers =
     buildHeader_loop rest
       (headers(HTTPHeader_Name header \<mapsto>
          (case headers (HTTPHeader_Name header) of None \<Rightarrow> [] | Some vs \<Rightarrow> vs)
            @ [HTTPHeader_Value header]))"

definition buildHeader :: "HTTPHeader list \<Rightarrow> Header" where
  "buildHeader headerList = buildHeader_loop headerList Map.empty"

text \<open>Reading a key of a header map the way Go does: a missing key gives the nil slice.\<close>

definition header_values :: "Header \<Rightarrow> string \<Rightarrow> string list" where
  "header_values headers name = (case headers name of None \<Rightarrow> [] | Some vs \<Rightarrow> vs)"

text \<open>\<^verbatim>\<open>findPortByName\<close>: the first port of that name.\<close>

fun findPortByName_loop :: "ContainerPort list \<Rightarrow> string \<Rightarrow> int \<times> go_error" where
  "findPortByName_loop [] portName = (0, OtherError (''port '' @ portName @ '' not found''))"
| "findPortByName_loop (port # rest) portName =
     (if ContainerPort_Name port = portName then (sint (ContainerPort port), NilError)
      else findPortByName_loop rest portName)"

definition findPortByName :: "Container \<Rightarrow> string \<Rightarrow> int \<times> go_error" where
  "findPortByName container portName = findPortByName_loop (Ports container) portName"

text \<open>\<^verbatim>\<open>IntOrString.IntValue\<close>: the integer, or the string parsed with its error dropped.\<close>

definition IntValue :: "IntOrString \<Rightarrow> int" where
  "IntValue param =
     (if IntOrString_Type param = intstr_String then fst (strconv_Atoi (StrVal param))
      else sint (IntVal param))"

text \<open>
  \<^verbatim>\<open>extractPort\<close>. \<open>port_in_range\<close> is the end of the function, reached from the switch
  with the port it found; the other branches of the switch return early.
\<close>

definition port_in_range :: "int \<Rightarrow> int \<times> go_error" where
  "port_in_range port =
     (if port > 0 \<and> port < 65536 then (port, NilError)
      else (port, OtherError (''invalid port number: '' @ strconv_Itoa port)))"

definition extractPort :: "IntOrString \<Rightarrow> Container \<Rightarrow> int \<times> go_error" where
  "extractPort param container =
     (if IntOrString_Type param = intstr_Int then port_in_range (IntValue param)
      else if IntOrString_Type param = intstr_String then
        (case findPortByName container (StrVal param) of
           (port, err) \<Rightarrow>
             if err \<noteq> NilError then
               (case strconv_Atoi (StrVal param) of
                  (port', err') \<Rightarrow>
                    if err' \<noteq> NilError then (port', err') else port_in_range port')
             else port_in_range port)
      else (- 1, OtherError (''IntOrString had no kind: {Type:''
              @ strconv_Itoa (IntOrString_Type param) @ '' IntVal:''
              @ strconv_Itoa (sint (IntVal param)) @ '' StrVal:'' @ StrVal param @ ''}'')))"

text \<open>\<^verbatim>\<open>formatURL\<close>: a path that does not parse is passed along as it is.\<close>

definition formatURL :: "'w prober \<Rightarrow> string \<Rightarrow> string \<Rightarrow> int \<Rightarrow> string \<Rightarrow> URL" where
  "formatURL pb scheme host port path =
     (let u = (case url_Parse pb path of
                 Some u \<Rightarrow> u
               | None \<Rightarrow> \<lparr>Scheme = [], Opaque = [], URL_Host = [], URL_Path = path,
                           RawQuery = [], Fragment = []\<rparr>)
      in u\<lparr>Scheme := scheme, URL_Host := net_JoinHostPort host (strconv_Itoa port)\<rparr>)"

text \<open>
  \<^verbatim>\<open>runProbe\<close>: one attempt. The timeout is \<^verbatim>\<open>TimeoutSeconds\<close> seconds in nanoseconds
  (an \<^verbatim>\<open>int64\<close>, which the product of an \<^verbatim>\<open>int32\<close> and \<open>10^9\<close> fits).
\<close>

definition runProbe ::
  "'w prober \<Rightarrow> Probe \<Rightarrow> Pod \<Rightarrow> PodStatus \<Rightarrow> Container \<Rightarrow> ContainerID
     \<Rightarrow> 'w probe_state \<Rightarrow> attempt \<times> 'w probe_state" where
  "runProbe pb p pod status container containerID st =
     (let timeout = sint (TimeoutSeconds p) * 1000000000 in
      case Exec p of
        Some e \<Rightarrow>
          (let command = ExpandContainerCommandOnlyStatic pb (Command e) (Env container)
           in invoke pb (ExecCall container containerID command timeout) st)
      | None \<Rightarrow>
          (case HTTPGet p of
             Some h \<Rightarrow>
               (let scheme = strings_ToLower pb (HTTPGet_Scheme h);
                    host = (if HTTPGet_Host h = [] then PodIP status else HTTPGet_Host h)
                in case extractPort (HTTPGet_Port h) container of
                     (port, err) \<Rightarrow>
                       if err \<noteq> NilError then ((probe_Unknown, [], err), st)
                       else (let path = HTTPGet_Path h;
                                 url = formatURL pb scheme host port path;
                                 headers = buildHeader (HTTPHeaders h)
                             in invoke pb (HTTPCall url headers timeout) st))
           | None \<Rightarrow>
               (case TCPSocket p of
                  Some t \<Rightarrow>
                    (case extractPort (TCPSocket_Port t) container of
                       (port, err) \<Rightarrow>
                         if err \<noteq> NilError then ((probe_Unknown, [], err), st)
                         else (let host = (if TCPSocket_Host t = [] then PodIP status
                                           else TCPSocket_Host t)
                               in invoke pb (TCPCall host port timeout) st))
                | None \<Rightarrow>
                    ((probe_Unknown, [],
                      OtherError (''Missing probe handler for '' @ format_Pod pod @ '':''
                        @ Container_Name container)), st))))"

text \<open>
  \<^verbatim>\<open>runProbeWithRetries\<close>: the loop \<^verbatim>\<open>for i := 0; i < 3; i++\<close>, with the variables
  \<^verbatim>\<open>result\<close>, \<^verbatim>\<open>output\<close>, \<^verbatim>\<open>err\<close> as the argument \<open>cur\<close>.
\<close>

function runProbeWithRetries_loop ::
  "'w prober \<Rightarrow> Probe \<Rightarrow> Pod \<Rightarrow> PodStatus \<Rightarrow> Container \<Rightarrow> ContainerID
     \<Rightarrow> nat \<Rightarrow> attempt \<Rightarrow> 'w probe_state \<Rightarrow> attempt \<times> 'w probe_state" where
  "runProbeWithRetries_loop pb p pod status container containerID i cur st =
     (if i < 3 then
        (case runProbe pb p pod status container containerID st of
           ((result, output, err), st') \<Rightarrow>
             if err = NilError then ((result, output, NilError), st')
             else runProbeWithRetries_loop pb p pod status container containerID (Suc i)
                    (result, output, err) st')
      else (cur, st))"
  by pat_completeness auto
termination
  by (relation "measure (\<lambda>(pb, p, pod, status, container, containerID, i, cur, st). 3 - i)")
     auto

declare runProbeWithRetries_loop.simps [simp del]

definition runProbeWithRetries ::
  "'w prober \<Rightarrow> Probe \<Rightarrow> Pod \<Rightarrow> PodStatus \<Rightarrow> Container \<Rightarrow> ContainerID
     \<Rightarrow> 'w probe_state \<Rightarrow> attempt \<times> 'w probe_state" where
  "runProbeWithRetries pb p pod status container containerID st =
     runProbeWithRetries_loop pb p pod status container containerID 0 ([], [], NilError) st"

text \<open>
  \<^verbatim>\<open>probe\<close>: the body reads \<^verbatim>\<open>probeType\<close>, \<^verbatim>\<open>probeSpec\<close>, \<^verbatim>\<open>pod\<close>, \<^verbatim>\<open>status\<close>,
  \<^verbatim>\<open>container\<close> and \<^verbatim>\<open>containerID\<close>; \<^verbatim>\<open>probeSpec\<close> is a pointer, nil when the
  container declares no such probe. An event goes to the recorder when the container has a
  reference.
\<close>

definition probe ::
  "'w prober \<Rightarrow> probeType \<Rightarrow> Probe option \<Rightarrow> Pod \<Rightarrow> PodStatus \<Rightarrow> Container \<Rightarrow> ContainerID
     \<Rightarrow> 'w probe_state \<Rightarrow> (results_Result \<times> go_error) \<times> 'w probe_state" where
  "probe pb probeType probeSpec pod status container containerID st =
     (case probeSpec of
        None \<Rightarrow> ((results_Success, NilError), st)
      | Some p \<Rightarrow>
          (case runProbeWithRetries pb p pod status container containerID st of
             ((result, output, err), st') \<Rightarrow>
               if err \<noteq> NilError \<or> result \<noteq> probe_Success then
                 (case GetRef pb containerID of
                    None \<Rightarrow> ((results_Failure, err), st')
                  | Some ref \<Rightarrow>
                      if err \<noteq> NilError
                      then ((results_Failure, err),
                            st'\<lparr>events := events st' @ [ProbeErrored ref probeType err]\<rparr>)
                      else ((results_Failure, err),
                            st'\<lparr>events := events st' @ [ProbeFailed ref probeType output]\<rparr>))
               else ((results_Success, NilError), st')))"

section \<open>The liveness dispatcher: manager/liveness.go\<close>

record LivenessUpdate =
  LivenessUpdate_namespace :: string
  LivenessUpdate_pod :: string

text \<open>\<^verbatim>\<open>results.Update\<close>: what the result manager reports for a container.\<close>

record results_Update =
  Update_ContainerID :: ContainerID
  Update_Result :: results_Result
  PodUID :: string

text \<open>
  The manager reads the pods of the resource manager (\<^verbatim>\<open>m.rm.GetPods()\<close>, here the list
  \<open>rm\<close>) and sends on the channel \<^verbatim>\<open>updates\<close>. The field \<open>updates\<close> is the sequence of
  values sent on the channel, oldest first; a send on the full channel (capacity 20) waits
  for a receiver and then sends the same value, so the waiting is not part of the model.
\<close>

record livenessManager =
  rm :: "Pod list"
  updates :: "LivenessUpdate list"

text \<open>
  \<^verbatim>\<open>updatePodLiveness\<close>. The constant \<^verbatim>\<open>podStatusReasonProviderFailed\<close> is declared
  outside these files and is a parameter. The loop over the pods compares each pod's UID
  with \<^verbatim>\<open>uid\<close>, a name the function does not declare: it is read as
  \<^verbatim>\<open>update.PodUID\<close>, the UID the function's own log line prints for the pod found. A
  terminated pod with that UID ends the whole function; any other pod with that UID sends
  an update and the loop goes on.
\<close>

fun updatePodLiveness_loop ::
  "string \<Rightarrow> results_Update \<Rightarrow> Pod list \<Rightarrow> LivenessUpdate list \<Rightarrow> LivenessUpdate list" where
  "updatePodLiveness_loop podStatusReasonProviderFailed update [] sent = sent"
| "updatePodLiveness_loop podStatusReasonProviderFailed update (p # rest) sent =
     (if UID p = PodUID update then
        (if Phase (Pod_Status p) = PodSucceeded
            \<or> Phase (Pod_Status p) = PodFailed
            \<or> PodStatus_Reason (Pod_Status p) = podStatusReasonProviderFailed
            \<or> DeletionTimestamp p \<noteq> None
         then sent
         else updatePodLiveness_loop podStatusReasonProviderFailed update rest
                (sent @ [\<lparr>LivenessUpdate_namespace = Namespace p, LivenessUpdate_pod = Pod_Name p\<rparr>]))
      else updatePodLiveness_loop podStatusReasonProviderFailed update rest sent)"

definition updatePodLiveness ::
  "string \<Rightarrow> livenessManager \<Rightarrow> results_Update \<Rightarrow> livenessManager" where
  "updatePodLiveness podStatusReasonProviderFailed m update =
     (if Update_Result update = results_Failure
      then m\<lparr>updates :=
               updatePodLiveness_loop podStatusReasonProviderFailed update (rm m) (updates m)\<rparr>
      else m)"

text \<open>The terminal states of the specification, for a pod.\<close>

definition terminal :: "string \<Rightarrow> Pod \<Rightarrow> bool" where
  "terminal podStatusReasonProviderFailed p =
     (Phase (Pod_Status p) = PodSucceeded
      \<or> Phase (Pod_Status p) = PodFailed
      \<or> PodStatus_Reason (Pod_Status p) = podStatusReasonProviderFailed
      \<or> DeletionTimestamp p \<noteq> None)"

section \<open>The readiness tracker: manager/prober/prober.go\<close>

text \<open>
  \<^verbatim>\<open>readiness\<close> is a \<^verbatim>\<open>map[string]map[string]map[string]bool\<close>. A Go map is a reference:
  two variables can hold the same map, and a write through one is seen through the other.
  The innermost maps are the only ones the code writes, so they live in a store, at
  addresses; \<open>None\<close> as a reference is the nil map. The two outer levels are never written
  by the code and are maps by value (a nil map reads as an empty one).
\<close>

type_synonym addr = nat

record readinessManager =
  readiness_rm :: "Pod list"
  readiness :: "string \<rightharpoonup> (string \<rightharpoonup> addr option)"
  store :: "addr \<Rightarrow> (string \<rightharpoonup> bool)"
  next_free :: addr

text \<open>\<^verbatim>\<open>NewReadinessManager\<close> leaves \<^verbatim>\<open>readiness\<close> nil.\<close>

definition NewReadinessManager :: "Pod list \<Rightarrow> readinessManager" where
  "NewReadinessManager pods =
     \<lparr>readiness_rm = pods, readiness = Map.empty, store = (\<lambda>a. Map.empty), next_free = 0\<rparr>"

text \<open>The first loop of \<^verbatim>\<open>SetContainerReadiness\<close>: the last pod with the UID is the target.\<close>

fun find_targetPod :: "Pod list \<Rightarrow> string \<Rightarrow> Pod option \<Rightarrow> Pod option" where
  "find_targetPod [] podUID targetPod = targetPod"
| "find_targetPod (p # rest) podUID targetPod =
     find_targetPod rest podUID (if UID p = podUID then Some p else targetPod)"

text \<open>
  The body run for the first container status with the container's ID. \<^verbatim>\<open>ns\<close> and
  \<^verbatim>\<open>pod\<close> are local variables: a map made by \<^verbatim>\<open>make\<close> is written to no map of the
  manager. \<^verbatim>\<open>pod[c.Name] = ready\<close> writes the map \<^verbatim>\<open>pod\<close> refers to, and panics on the
  nil map.
\<close>

definition set_ready :: "readinessManager \<Rightarrow> Pod \<Rightarrow> string \<Rightarrow> bool \<Rightarrow> readinessManager go_result" where
  "set_ready m targetPod name ready =
     (let ns = (case readiness m (Namespace targetPod) of
                  Some ns \<Rightarrow> ns
                | None \<Rightarrow> Map.empty)
      in case ns (Pod_Name targetPod) of
           Some None \<Rightarrow> Panic
         | Some (Some a) \<Rightarrow> Returns (m\<lparr>store := (store m)(a := (store m a)(name \<mapsto> ready))\<rparr>)
         | None \<Rightarrow>
             (let a = next_free m
              in Returns (m\<lparr>store := (store m)(a := Map.empty(name \<mapsto> ready)),
                            next_free := Suc a\<rparr>)))"

fun SetContainerReadiness_loop ::
  "readinessManager \<Rightarrow> Pod \<Rightarrow> string \<Rightarrow> bool \<Rightarrow> ContainerStatus list \<Rightarrow> readinessManager go_result" where
  "SetContainerReadiness_loop m targetPod cid ready [] = Returns m"
| "SetContainerReadiness_loop m targetPod cid ready (c # rest) =
     (if ContainerStatus_ContainerID c = cid
      then set_ready m targetPod (ContainerStatus_Name c) ready
      else SetContainerReadiness_loop m targetPod cid ready rest)"

definition SetContainerReadiness ::
  "readinessManager \<Rightarrow> string \<Rightarrow> ContainerID \<Rightarrow> bool \<Rightarrow> readinessManager go_result" where
  "SetContainerReadiness m podUID containerID ready =
     (case find_targetPod (readiness_rm m) podUID None of
        None \<Rightarrow> Returns m
      | Some targetPod \<Rightarrow>
          SetContainerReadiness_loop m targetPod (ContainerID_String containerID) ready
            (ContainerStatuses (Pod_Status targetPod)))"

text \<open>
  \<^verbatim>\<open>GetPodContainersReadiness\<close> returns the map of the pod, or nil (\<open>None\<close>); the map is
  given by its contents at the time of the call.
\<close>

definition GetPodContainersReadiness ::
  "readinessManager \<Rightarrow> string \<Rightarrow> string \<Rightarrow> (string \<rightharpoonup> bool) option" where
  "GetPodContainersReadiness m ns_name pod_name =
     (case readiness m ns_name of
        Some ns \<Rightarrow>
          (case ns pod_name of
             Some ref \<Rightarrow> (case ref of Some a \<Rightarrow> Some (store m a) | None \<Rightarrow> None)
           | None \<Rightarrow> None)
      | None \<Rightarrow> None)"

text \<open>Reading a key of the returned map: false for a missing key and for the nil map.\<close>

definition ready_of :: "(string \<rightharpoonup> bool) option \<Rightarrow> string \<Rightarrow> bool" where
  "ready_of result name =
     (case result of
        None \<Rightarrow> False
      | Some containers \<Rightarrow> (case containers name of None \<Rightarrow> False | Some b \<Rightarrow> b))"

section \<open>Port resolution as the specification words it\<close>

text \<open>
  A port reference is a literal integer or a name. A name is looked up among the
  container's declared ports; when no port has that name, the name itself is parsed as an
  integer. A reference of neither kind resolves to nothing.
\<close>

definition resolve_port :: "IntOrString \<Rightarrow> Container \<Rightarrow> int option" where
  "resolve_port param container =
     (if IntOrString_Type param = intstr_Int then Some (sint (IntVal param))
      else if IntOrString_Type param = intstr_String then
        (case find (\<lambda>port. ContainerPort_Name port = StrVal param) (Ports container) of
           Some port \<Rightarrow> Some (sint (ContainerPort port))
         | None \<Rightarrow>
             (case strconv_Atoi (StrVal param) of
                (n, err) \<Rightarrow> if err = NilError then Some n else None))
      else None)"

definition port_ok :: "IntOrString \<Rightarrow> Container \<Rightarrow> int \<Rightarrow> bool" where
  "port_ok param container port =
     (resolve_port param container = Some port \<and> 0 < port \<and> port < 65536)"

section \<open>Concrete values for the examples\<close>

definition web_pod :: Pod where
  "web_pod =
     \<lparr>Namespace = ''default'', Pod_Name = ''web'', UID = ''u1'', DeletionTimestamp = None,
      Pod_Status = \<lparr>Phase = ''Running'', PodStatus_Reason = [], PodIP = ''10.0.0.7'',
        ContainerStatuses =
          [\<lparr>ContainerStatus_Name = ''app'', ContainerStatus_ContainerID = ''docker://c1''\<rparr>]\<rparr>\<rparr>"

definition app_container :: Container where
  "app_container =
     \<lparr>Container_Name = ''app'',
      Ports = [\<lparr>ContainerPort_Name = ''http'', ContainerPort = 8080\<rparr>],
      Env = []\<rparr>"

definition c1 :: ContainerID where
  "c1 = \<lparr>ContainerID_Type = ''docker'', ID = ''c1''\<rparr>"

text \<open>
  A prober over a world that counts the calls made: every primitive fails with an error on
  the first two calls and succeeds from the third on.
\<close>

definition flaky :: "nat \<Rightarrow> attempt \<times> nat" where
  "flaky w =
     (if w < 2 then ((probe_Failure, ''no answer'', OtherError ''timeout''), Suc w)
      else ((probe_Success, ''ok'', NilError), Suc w))"

definition flaky_prober :: "nat prober" where
  "flaky_prober =
     \<lparr>exec_Probe = (\<lambda>container containerID command timeout. flaky),
      http_Probe = (\<lambda>url headers timeout. flaky),
      tcp_Probe = (\<lambda>host port timeout. flaky),
      GetRef = (\<lambda>containerID. Some ''ref''),
      url_Parse = (\<lambda>path. None),
      strings_ToLower = (\<lambda>s. s),
      ExpandContainerCommandOnlyStatic = (\<lambda>command env. command)\<rparr>"

definition start :: "nat probe_state" where
  "start = \<lparr>world = 0, calls = [], events = []\<rparr>"

definition http_probe :: "IntOrString \<Rightarrow> Probe" where
  "http_probe port =
     \<lparr>Exec = None,
      HTTPGet = Some \<lparr>HTTPGet_Path = ''/healthz'', HTTPGet_Port = port, HTTPGet_Host = [],
                       HTTPGet_Scheme = ''http'', HTTPHeaders = []\<rparr>,
      TCPSocket = None, TimeoutSeconds = 1\<rparr>"

definition tcp_probe :: "IntOrString \<Rightarrow> Probe" where
  "tcp_probe port =
     \<lparr>Exec = None, HTTPGet = None,
      TCPSocket = Some \<lparr>TCPSocket_Port = port, TCPSocket_Host = []\<rparr>,
      TimeoutSeconds = 1\<rparr>"

definition no_handler_probe :: Probe where
  "no_handler_probe = \<lparr>Exec = None, HTTPGet = None, TCPSocket = None, TimeoutSeconds = 1\<rparr>"

definition named_port :: "string \<Rightarrow> IntOrString" where
  "named_port name = \<lparr>IntOrString_Type = intstr_String, IntVal = 0, StrVal = name\<rparr>"

definition literal_port :: "32 word \<Rightarrow> IntOrString" where
  "literal_port n = \<lparr>IntOrString_Type = intstr_Int, IntVal = n, StrVal = []\<rparr>"

section \<open>Theorems: error taxonomy\<close>

lemmas ErrorReason_defs =
  ErrorReasonUnknown_def ErrorReasonUnauthorized_def ErrorReasonNotFound_def
  ErrorReasonInternalServerError_def ErrorReasonServiceUnavailable_def
  ErrorReasonTooManyRequests_def ErrorReasonBadRequest_def

text \<open>
  C2. The claim: \<^verbatim>\<open>IsRetryable\<close> is true for the reasons \<^verbatim>\<open>TooManyRequests\<close>,
  \<^verbatim>\<open>ServiceUnavailable\<close> and \<^verbatim>\<open>InternalServerError\<close>, and false for every other error.
  The code, at the errors the package's own constructors build: it returns false for
  \<^verbatim>\<open>NewTooManyRequests\<close> and for \<^verbatim>\<open>NewServiceUnavailable\<close>, and true only for
  \<^verbatim>\<open>NewInternalServerError\<close>.
\<close>

theorem IsRetryable_only_InternalServerError:
  "IsRetryable (NewTooManyRequests ''busy'' 1 NilError) = Returns False
   \<and> IsRetryable (NewServiceUnavailable ''down'' 1 NilError) = Returns False
   \<and> IsRetryable (NewInternalServerError ''failed'' 1 NilError) = Returns True"
  by (simp add: IsRetryable_def NewTooManyRequests_def NewServiceUnavailable_def
      NewInternalServerError_def ErrorReason_defs)

text \<open>What the code computes for every error with a status: true for one reason only.\<close>

lemma IsRetryable_code:
  "IsRetryable (OperationError (Some st)) =
     Returns (Reason st = ErrorReasonInternalServerError)"
  by (simp add: IsRetryable_def ErrorReason_defs)

text \<open>
  C3. For every error with a status, \<^verbatim>\<open>SuggestsClientDelay\<close> returns (it does not
  panic): with details present and the reason \<^verbatim>\<open>ServiceUnavailable\<close>, the retry-after
  value and true, whatever its sign; otherwise, with details present and a positive
  retry-after value, that value and true, whatever the reason; in all other cases
  \<open>(0, False)\<close>.
\<close>

theorem SuggestsClientDelay_cases:
  "SuggestsClientDelay (OperationError (Some st)) =
     Returns
       (if Reason st = ErrorReasonServiceUnavailable \<and> Details st \<noteq> None
        then (sint (RetryAfterSeconds (the (Details st))), True)
        else if Details st \<noteq> None \<and> 0 < sint (RetryAfterSeconds (the (Details st)))
        then (sint (RetryAfterSeconds (the (Details st))), True)
        else (0, False))"
  by (cases "Details st") simp_all

text \<open>The three examples of the specification, and a negative value.\<close>

lemma SuggestsClientDelay_examples:
  "SuggestsClientDelay (NewServiceUnavailable ''down'' 5 NilError) = Returns (5, True)"
  "SuggestsClientDelay (OperationError (Some (ErrorStatus ErrorReasonBadRequest
      (Some \<lparr>RetryAfterSeconds = 5\<rparr>) ''bad'' NilError))) = Returns (5, True)"
  "SuggestsClientDelay (NewBadRequest ''bad'' NilError) = Returns (0, False)"
  "SuggestsClientDelay (NewServiceUnavailable ''down'' (- 3) NilError) = Returns (- 3, True)"
  "SuggestsClientDelay (NewTooManyRequests ''busy'' (- 3) NilError) = Returns (0, False)"
  by (simp_all add: NewServiceUnavailable_def NewBadRequest_def NewTooManyRequests_def
      ErrorReason_defs)

text \<open>
  C9. An error whose type has no \<^verbatim>\<open>Status\<close> method is classified without a panic:
  its reason is \<^verbatim>\<open>Unknown\<close>, \<^verbatim>\<open>IsNotFound\<close> and \<^verbatim>\<open>IsRetryable\<close> return false and
  \<^verbatim>\<open>SuggestsClientDelay\<close> returns \<open>(0, False)\<close>.
\<close>

theorem non_Interface_safe_default:
  assumes "\<not> implements_Interface err"
  shows "reasonForError err = Returns ErrorReasonUnknown
       \<and> IsNotFound err = Returns False
       \<and> IsRetryable err = Returns False
       \<and> SuggestsClientDelay err = Returns (0, False)"
  using assms
  by (cases err) (simp_all add: IsNotFound_def IsRetryable_def ErrorReason_defs)

theorem non_Interface_safe_default_witness:
  "\<not> implements_Interface (OtherError ''connection reset'')
   \<and> reasonForError (OtherError ''connection reset'') = Returns ErrorReasonUnknown
   \<and> IsNotFound (OtherError ''connection reset'') = Returns False
   \<and> IsRetryable (OtherError ''connection reset'') = Returns False
   \<and> SuggestsClientDelay (OtherError ''connection reset'') = Returns (0, False)"
  using non_Interface_safe_default [of "OtherError ''connection reset''"] by simp

section \<open>Theorems: the probe engine\<close>

subsection \<open>Headers\<close>

lemma filter_absent_name:
  "name \<notin> HTTPHeader_Name ` set hl \<Longrightarrow>
     filter (\<lambda>h. HTTPHeader_Name h = name) hl = []"
  by (induction hl) auto

lemma buildHeader_loop_lookup:
  "buildHeader_loop hl acc name =
     (if name \<in> HTTPHeader_Name ` set hl
      then Some (header_values acc name
                 @ map HTTPHeader_Value (filter (\<lambda>h. HTTPHeader_Name h = name) hl))
      else acc name)"
proof (induction hl arbitrary: acc)
  case Nil
  show ?case by simp
next
  case (Cons h rest)
  show ?case
    by (simp add: Cons.IH header_values_def filter_absent_name split: option.split)
qed

text \<open>
  C8. The header map built from a list holds, for each name in the list, the values given
  for that name, in the order of the list; a name that is not in the list has no entry.
\<close>

theorem buildHeader_appends:
  "buildHeader headerList name =
     (if name \<in> HTTPHeader_Name ` set headerList
      then Some (map HTTPHeader_Value
                   (filter (\<lambda>h. HTTPHeader_Name h = name) headerList))
      else None)"
  by (simp add: buildHeader_def buildHeader_loop_lookup header_values_def)

lemma buildHeader_example:
  "buildHeader [\<lparr>HTTPHeader_Name = ''Accept'', HTTPHeader_Value = ''a''\<rparr>,
                \<lparr>HTTPHeader_Name = ''Host'', HTTPHeader_Value = ''h''\<rparr>,
                \<lparr>HTTPHeader_Name = ''Accept'', HTTPHeader_Value = ''b''\<rparr>] ''Accept''
   = Some [''a'', ''b'']"
  by (simp add: buildHeader_def)

subsection \<open>One attempt\<close>

lemma invoke_calls: "calls (snd (invoke pb c st)) = calls st @ [c]"
  by (simp add: invoke_def split: prod.split)

lemma invoke_events: "events (snd (invoke pb c st)) = events st"
  by (simp add: invoke_def split: prod.split)

lemma runProbe_calls_length:
  "length (calls (snd (runProbe pb p pod status container containerID st)))
     \<le> Suc (length (calls st))"
  by (simp add: runProbe_def Let_def invoke_calls split: option.split prod.split)

subsection \<open>The retry loop\<close>

lemma loop_at_3:
  "runProbeWithRetries_loop pb p pod status container containerID 3 cur st = (cur, st)"
  by (subst runProbeWithRetries_loop.simps) simp

lemma loop_at_2:
  "runProbeWithRetries_loop pb p pod status container containerID 2 cur st =
     runProbe pb p pod status container containerID st"
  by (subst runProbeWithRetries_loop.simps)
     (simp add: loop_at_3 numeral_3_eq_3 [symmetric] eval_nat_numeral(3) [symmetric]
        split: prod.split)

lemma loop_at_1:
  "runProbeWithRetries_loop pb p pod status container containerID (Suc 0) cur st =
     (case runProbe pb p pod status container containerID st of
        (a2, s2) \<Rightarrow>
          if snd (snd a2) = NilError then (a2, s2)
          else runProbe pb p pod status container containerID s2)"
  by (subst runProbeWithRetries_loop.simps)
     (simp add: loop_at_2 numeral_2_eq_2 [symmetric] split: prod.split)

lemma loop_at_0:
  "runProbeWithRetries_loop pb p pod status container containerID 0 cur st =
     (case runProbe pb p pod status container containerID st of
        (a1, s1) \<Rightarrow>
          if snd (snd a1) = NilError then (a1, s1)
          else (case runProbe pb p pod status container containerID s1 of
                  (a2, s2) \<Rightarrow>
                    if snd (snd a2) = NilError then (a2, s2)
                    else runProbe pb p pod status container containerID s2))"
  by (subst runProbeWithRetries_loop.simps) (simp add: loop_at_1 split: prod.split)

lemma three_attempts_calls:
  fixes f :: "'w probe_state \<Rightarrow> attempt \<times> 'w probe_state"
  assumes step: "\<And>s. length (calls (snd (f s))) \<le> Suc (length (calls s))"
  shows "length (calls (snd
           (case f st of
              (a1, s1) \<Rightarrow>
                if snd (snd a1) = NilError then (a1, s1)
                else (case f s1 of
                        (a2, s2) \<Rightarrow> if snd (snd a2) = NilError then (a2, s2) else f s2))))
         \<le> length (calls st) + 3"
proof -
  obtain a1 s1 where f1: "f st = (a1, s1)" by (cases "f st")
  obtain a2 s2 where f2: "f s1 = (a2, s2)" by (cases "f s1")
  have l1: "length (calls s1) \<le> Suc (length (calls st))"
    using step [of st] by (simp add: f1)
  have l2: "length (calls s2) \<le> Suc (length (calls s1))"
    using step [of s1] by (simp add: f2)
  have l3: "length (calls (snd (f s2))) \<le> Suc (length (calls s2))"
    by (rule step)
  show ?thesis
    using l1 l2 l3 by (simp add: f1 f2)
qed

text \<open>
  C5. The retry loop is three attempts at most, each in the state the one before left:
  an attempt that returns a nil error is the answer, with its result and output, and no
  further attempt is made; when the first two attempts return an error, the answer is
  whatever the third attempt returns, error included. The primitives are invoked three
  times at most.
\<close>

theorem runProbeWithRetries_three_attempts:
  "runProbeWithRetries pb p pod status container containerID st =
     (case runProbe pb p pod status container containerID st of
        (a1, s1) \<Rightarrow>
          if snd (snd a1) = NilError then (a1, s1)
          else (case runProbe pb p pod status container containerID s1 of
                  (a2, s2) \<Rightarrow>
                    if snd (snd a2) = NilError then (a2, s2)
                    else runProbe pb p pod status container containerID s2))
   \<and> length (calls (snd (runProbeWithRetries pb p pod status container containerID st)))
       \<le> length (calls st) + 3"
proof -
  have eq: "runProbeWithRetries pb p pod status container containerID st =
     (case runProbe pb p pod status container containerID st of
        (a1, s1) \<Rightarrow>
          if snd (snd a1) = NilError then (a1, s1)
          else (case runProbe pb p pod status container containerID s1 of
                  (a2, s2) \<Rightarrow>
                    if snd (snd a2) = NilError then (a2, s2)
                    else runProbe pb p pod status container containerID s2))"
    by (simp only: runProbeWithRetries_def loop_at_0)
  have "length (calls (snd (runProbeWithRetries pb p pod status container containerID st)))
       \<le> length (calls st) + 3"
    unfolding eq by (rule three_attempts_calls) (rule runProbe_calls_length)
  with eq show ?thesis by (rule conjI)
qed

theorem runProbeWithRetries_three_attempts_witness:
  "runProbeWithRetries
     (flaky_prober\<lparr>tcp_Probe := (\<lambda>host port timeout w.
        ((probe_Unknown, ''attempt '' @ strconv_Itoa (int w), OtherError ''unreachable''),
         Suc w))\<rparr>)
     (tcp_probe (literal_port 8080)) web_pod (Pod_Status web_pod) app_container c1 start
   = ((probe_Unknown, ''attempt 2'', OtherError ''unreachable''),
      \<lparr>world = 3,
       calls = [TCPCall ''10.0.0.7'' 8080 1000000000, TCPCall ''10.0.0.7'' 8080 1000000000,
                TCPCall ''10.0.0.7'' 8080 1000000000],
       events = []\<rparr>)"
  using runProbeWithRetries_three_attempts
    [of "flaky_prober\<lparr>tcp_Probe := (\<lambda>host port timeout w.
          ((probe_Unknown, ''attempt '' @ strconv_Itoa (int w), OtherError ''unreachable''),
           Suc w))\<rparr>"
        "tcp_probe (literal_port 8080)" web_pod "Pod_Status web_pod" app_container c1 start]
  by (simp add: runProbe_def tcp_probe_def
      literal_port_def extractPort_def IntValue_def port_in_range_def intstr_Int_def
      intstr_String_def web_pod_def app_container_def start_def invoke_def
      flaky_prober_def flaky_def strconv_Itoa_def decimal.simps)

text \<open>
  The examples of the specification: a clean \<^verbatim>\<open>Failure\<close> on the first attempt is
  returned after one invocation; with an error on every attempt, the third attempt's
  answer is returned after exactly three invocations; an error twice and then a success
  gives the success.
\<close>

lemma retry_examples:
  "runProbeWithRetries
     (flaky_prober\<lparr>tcp_Probe := (\<lambda>host port timeout w.
        ((probe_Failure, ''refused'', NilError), Suc w))\<rparr>)
     (tcp_probe (literal_port 8080)) web_pod (Pod_Status web_pod) app_container c1 start
   = ((probe_Failure, ''refused'', NilError),
      \<lparr>world = 1, calls = [TCPCall ''10.0.0.7'' 8080 1000000000], events = []\<rparr>)"
  "runProbeWithRetries
     (flaky_prober\<lparr>tcp_Probe := (\<lambda>host port timeout w.
        ((probe_Unknown, ''attempt '' @ strconv_Itoa (int w), OtherError ''unreachable''),
         Suc w))\<rparr>)
     (tcp_probe (literal_port 8080)) web_pod (Pod_Status web_pod) app_container c1 start
   = ((probe_Unknown, ''attempt 2'', OtherError ''unreachable''),
      \<lparr>world = 3,
       calls = [TCPCall ''10.0.0.7'' 8080 1000000000, TCPCall ''10.0.0.7'' 8080 1000000000,
                TCPCall ''10.0.0.7'' 8080 1000000000],
       events = []\<rparr>)"
  "fst (runProbeWithRetries flaky_prober (tcp_probe (literal_port 8080)) web_pod
          (Pod_Status web_pod) app_container c1 start)
   = (probe_Success, ''ok'', NilError)"
  by (simp_all add: runProbeWithRetries_def loop_at_0 runProbe_def tcp_probe_def
      literal_port_def extractPort_def IntValue_def port_in_range_def intstr_Int_def
      intstr_String_def web_pod_def app_container_def start_def invoke_def
      flaky_prober_def flaky_def strconv_Itoa_def decimal.simps)

subsection \<open>The wrapper\<close>

text \<open>
  C10. For a probe that is declared, the wrapper returns \<^verbatim>\<open>results.Success\<close> with a nil
  error exactly when the retry cycle returned a nil error and \<^verbatim>\<open>probe.Success\<close>; in
  every other case it returns \<^verbatim>\<open>results.Failure\<close> with the cycle's error. It never
  returns \<^verbatim>\<open>results.Unknown\<close>.
\<close>

theorem probe_collapses_to_Failure:
  "fst (probe pb probeType (Some p) pod status container containerID st) =
     (case fst (runProbeWithRetries pb p pod status container containerID st) of
        (result, output, err) \<Rightarrow>
          if err = NilError \<and> result = probe_Success then (results_Success, NilError)
          else (results_Failure, err))
   \<and> fst (fst (probe pb probeType (Some p) pod status container containerID st))
       \<noteq> results_Unknown"
  by (simp add: probe_def split: prod.split option.split)

text \<open>An \<^verbatim>\<open>Unknown\<close> from the cycle (a port out of range) comes out as \<^verbatim>\<open>Failure\<close>.\<close>

theorem probe_collapses_to_Failure_witness:
  "fst (probe flaky_prober Liveness (Some (tcp_probe (literal_port 0))) web_pod
          (Pod_Status web_pod) app_container c1 start)
   = (results_Failure, OtherError ''invalid port number: 0'')"
  using probe_collapses_to_Failure
    [of flaky_prober Liveness "tcp_probe (literal_port 0)" web_pod "Pod_Status web_pod"
        app_container c1 start]
  by (simp add: runProbeWithRetries_def loop_at_0 runProbe_def tcp_probe_def
      literal_port_def extractPort_def IntValue_def port_in_range_def intstr_Int_def
      intstr_String_def flaky_prober_def strconv_Itoa_def decimal.simps probe_Success_def
      probe_Unknown_def)

subsection \<open>No probe declared, no handler declared\<close>

lemma runProbe_no_handler:
  assumes "Exec p = None" and "HTTPGet p = None" and "TCPSocket p = None"
  shows "runProbe pb p pod status container containerID st =
           ((probe_Unknown, [],
             OtherError (''Missing probe handler for '' @ format_Pod pod @ '':''
               @ Container_Name container)), st)"
  using assms by (simp add: runProbe_def)

lemma retries_no_handler:
  assumes "Exec p = None" and "HTTPGet p = None" and "TCPSocket p = None"
  shows "runProbeWithRetries pb p pod status container containerID st =
           ((probe_Unknown, [],
             OtherError (''Missing probe handler for '' @ format_Pod pod @ '':''
               @ Container_Name container)), st)"
  by (simp add: runProbeWithRetries_def loop_at_0 runProbe_no_handler [OF assms])

text \<open>
  C7, the claim as stated fails: a probe declaration with no \<^verbatim>\<open>Exec\<close>, \<^verbatim>\<open>HTTPGet\<close> or
  \<^verbatim>\<open>TCPSocket\<close> does not give \<^verbatim>\<open>Success\<close>. An attempt returns \<^verbatim>\<open>Unknown\<close> with the
  error "Missing probe handler", and the wrapper returns \<^verbatim>\<open>Failure\<close> with that error.
\<close>

theorem no_handler_probe_is_not_Success:
  "fst (runProbe flaky_prober no_handler_probe web_pod (Pod_Status web_pod) app_container
          c1 start)
     = (probe_Unknown, [], OtherError ''Missing probe handler for web_default(u1):app'')
   \<and> fst (probe flaky_prober Liveness (Some no_handler_probe) web_pod (Pod_Status web_pod)
            app_container c1 start)
     = (results_Failure, OtherError ''Missing probe handler for web_default(u1):app'')
   \<and> fst (probe flaky_prober Liveness (Some no_handler_probe) web_pod (Pod_Status web_pod)
            app_container c1 start)
     \<noteq> (results_Success, NilError)"
  by (simp add: probe_def retries_no_handler runProbe_no_handler no_handler_probe_def
      format_Pod_def web_pod_def app_container_def probe_Unknown_def probe_Success_def
      flaky_prober_def)

text \<open>
  C7, amended. When no probe is declared (the probe spec is nil), the wrapper returns
  \<^verbatim>\<open>Success\<close> with a nil error and leaves the state as it was: no primitive is invoked.
  For a declared probe with no \<^verbatim>\<open>Exec\<close>, \<^verbatim>\<open>HTTPGet\<close> or \<^verbatim>\<open>TCPSocket\<close>, an attempt
  returns \<^verbatim>\<open>Unknown\<close> with the error "Missing probe handler" and leaves the state as it
  was, and the wrapper returns \<^verbatim>\<open>Failure\<close> with that error, no primitive invoked and the
  world untouched.
\<close>

theorem no_probe_Success_no_handler_Unknown:
  "probe pb probeType None pod status container containerID st
     = ((results_Success, NilError), st)
   \<and> (Exec p = None \<and> HTTPGet p = None \<and> TCPSocket p = None \<longrightarrow>
        runProbe pb p pod status container containerID st
          = ((probe_Unknown, [],
              OtherError (''Missing probe handler for '' @ format_Pod pod @ '':''
                @ Container_Name container)), st)
        \<and> fst (probe pb probeType (Some p) pod status container containerID st)
          = (results_Failure,
             OtherError (''Missing probe handler for '' @ format_Pod pod @ '':''
               @ Container_Name container))
        \<and> calls (snd (probe pb probeType (Some p) pod status container containerID st))
          = calls st
        \<and> world (snd (probe pb probeType (Some p) pod status container containerID st))
          = world st)"
  by (simp add: probe_def retries_no_handler runProbe_no_handler split: option.split)

theorem no_probe_Success_no_handler_Unknown_witness:
  "probe flaky_prober Readiness None web_pod (Pod_Status web_pod) app_container c1 start
     = ((results_Success, NilError), start)
   \<and> Exec no_handler_probe = None \<and> HTTPGet no_handler_probe = None
   \<and> TCPSocket no_handler_probe = None
   \<and> runProbe flaky_prober no_handler_probe web_pod (Pod_Status web_pod) app_container
        c1 start
     = ((probe_Unknown, [], OtherError ''Missing probe handler for web_default(u1):app''),
        start)
   \<and> fst (probe flaky_prober Readiness (Some no_handler_probe) web_pod (Pod_Status web_pod)
            app_container c1 start)
     = (results_Failure, OtherError ''Missing probe handler for web_default(u1):app'')
   \<and> calls (snd (probe flaky_prober Readiness (Some no_handler_probe) web_pod
                   (Pod_Status web_pod) app_container c1 start)) = []
   \<and> world (snd (probe flaky_prober Readiness (Some no_handler_probe) web_pod
                   (Pod_Status web_pod) app_container c1 start)) = 0"
  using no_probe_Success_no_handler_Unknown
    [of flaky_prober Readiness web_pod "Pod_Status web_pod" app_container c1 start
        no_handler_probe]
  by (simp add: no_handler_probe_def format_Pod_def web_pod_def app_container_def
      start_def flaky_prober_def)

subsection \<open>Port resolution\<close>

lemma findPortByName_loop_find:
  "findPortByName_loop ps portName =
     (case find (\<lambda>port. ContainerPort_Name port = portName) ps of
        Some port \<Rightarrow> (sint (ContainerPort port), NilError)
      | None \<Rightarrow> (0, OtherError (''port '' @ portName @ '' not found'')))"
  by (induction ps) simp_all

lemma port_in_range_ok: "0 < port \<Longrightarrow> port < 65536 \<Longrightarrow> port_in_range port = (port, NilError)"
  by (simp add: port_in_range_def)

lemma port_in_range_bad: "\<not> (0 < port \<and> port < 65536) \<Longrightarrow> snd (port_in_range port) \<noteq> NilError"
  by (simp add: port_in_range_def)

lemma extractPort_ok:
  assumes "port_ok param container port"
  shows "extractPort param container = (port, NilError)"
  using assms
  by (auto simp: port_ok_def resolve_port_def extractPort_def IntValue_def
      findPortByName_def findPortByName_loop_find port_in_range_ok intstr_Int_def
      intstr_String_def split: if_splits option.splits prod.splits)

lemma extractPort_bad:
  assumes "\<And>port. \<not> port_ok param container port"
  shows "snd (extractPort param container) \<noteq> NilError"
proof (cases "resolve_port param container")
  case None
  then show ?thesis
    by (auto simp: resolve_port_def extractPort_def findPortByName_def
        findPortByName_loop_find intstr_Int_def intstr_String_def
        split: if_splits option.splits prod.splits)
next
  case (Some port)
  with assms [of port] have bad: "\<not> (0 < port \<and> port < 65536)"
    by (simp add: port_ok_def)
  from Some show ?thesis
    using port_in_range_bad [OF bad]
    by (auto simp: resolve_port_def extractPort_def IntValue_def findPortByName_def
        findPortByName_loop_find intstr_Int_def intstr_String_def
        split: if_splits option.splits prod.splits)
qed

text \<open>
  C6. For a probe with no \<^verbatim>\<open>Exec\<close>: the port of its \<^verbatim>\<open>HTTPGet\<close>, or else of its
  \<^verbatim>\<open>TCPSocket\<close>, is resolved as the specification says (the literal integer, or the
  declared port of that name, or else the name parsed as an integer). When the resolved
  port \<open>p\<close> has \<open>0 < p < 65536\<close>, the attempt invokes the HTTP (the TCP) primitive with that
  port, and that is its answer. For every other port reference the attempt returns
  \<^verbatim>\<open>Unknown\<close>, an empty output and a non-nil error, in an unchanged state: no primitive is
  invoked.
\<close>

theorem runProbe_port_resolution:
  assumes "Exec p = None"
  shows
    "(HTTPGet p = Some h \<and> port_ok (HTTPGet_Port h) container port \<longrightarrow>
        runProbe pb p pod status container containerID st =
          invoke pb
            (HTTPCall
               (formatURL pb (strings_ToLower pb (HTTPGet_Scheme h))
                  (if HTTPGet_Host h = [] then PodIP status else HTTPGet_Host h)
                  port (HTTPGet_Path h))
               (buildHeader (HTTPHeaders h))
               (sint (TimeoutSeconds p) * 1000000000)) st)
     \<and> (HTTPGet p = Some h \<and> (\<forall>q. \<not> port_ok (HTTPGet_Port h) container q) \<longrightarrow>
          (\<exists>err. err \<noteq> NilError
             \<and> runProbe pb p pod status container containerID st
                 = ((probe_Unknown, [], err), st)))
     \<and> (HTTPGet p = None \<and> TCPSocket p = Some t
          \<and> port_ok (TCPSocket_Port t) container port \<longrightarrow>
          runProbe pb p pod status container containerID st =
            invoke pb
              (TCPCall (if TCPSocket_Host t = [] then PodIP status else TCPSocket_Host t)
                 port (sint (TimeoutSeconds p) * 1000000000)) st)
     \<and> (HTTPGet p = None \<and> TCPSocket p = Some t
          \<and> (\<forall>q. \<not> port_ok (TCPSocket_Port t) container q) \<longrightarrow>
          (\<exists>err. err \<noteq> NilError
             \<and> runProbe pb p pod status container containerID st
                 = ((probe_Unknown, [], err), st)))"
proof (intro conjI impI)
  assume a: "HTTPGet p = Some h \<and> port_ok (HTTPGet_Port h) container port"
  then have "extractPort (HTTPGet_Port h) container = (port, NilError)"
    by (intro extractPort_ok) simp
  then show "runProbe pb p pod status container containerID st =
          invoke pb
            (HTTPCall
               (formatURL pb (strings_ToLower pb (HTTPGet_Scheme h))
                  (if HTTPGet_Host h = [] then PodIP status else HTTPGet_Host h)
                  port (HTTPGet_Path h))
               (buildHeader (HTTPHeaders h))
               (sint (TimeoutSeconds p) * 1000000000)) st"
    using assms a by (simp add: runProbe_def Let_def)
next
  assume a: "HTTPGet p = Some h \<and> (\<forall>q. \<not> port_ok (HTTPGet_Port h) container q)"
  then have bad: "snd (extractPort (HTTPGet_Port h) container) \<noteq> NilError"
    by (intro extractPort_bad) simp
  obtain q err where e: "extractPort (HTTPGet_Port h) container = (q, err)"
    by (cases "extractPort (HTTPGet_Port h) container")
  with bad have "err \<noteq> NilError"
    by simp
  moreover from this have "runProbe pb p pod status container containerID st
                 = ((probe_Unknown, [], err), st)"
    using assms a e by (simp add: runProbe_def Let_def)
  ultimately show "\<exists>err. err \<noteq> NilError
             \<and> runProbe pb p pod status container containerID st
                 = ((probe_Unknown, [], err), st)"
    by blast
next
  assume a: "HTTPGet p = None \<and> TCPSocket p = Some t
          \<and> port_ok (TCPSocket_Port t) container port"
  then have "extractPort (TCPSocket_Port t) container = (port, NilError)"
    by (intro extractPort_ok) simp
  then show "runProbe pb p pod status container containerID st =
            invoke pb
              (TCPCall (if TCPSocket_Host t = [] then PodIP status else TCPSocket_Host t)
                 port (sint (TimeoutSeconds p) * 1000000000)) st"
    using assms a by (simp add: runProbe_def Let_def)
next
  assume a: "HTTPGet p = None \<and> TCPSocket p = Some t
          \<and> (\<forall>q. \<not> port_ok (TCPSocket_Port t) container q)"
  then have bad: "snd (extractPort (TCPSocket_Port t) container) \<noteq> NilError"
    by (intro extractPort_bad) simp
  obtain q err where e: "extractPort (TCPSocket_Port t) container = (q, err)"
    by (cases "extractPort (TCPSocket_Port t) container")
  with bad have "err \<noteq> NilError"
    by simp
  moreover from this have "runProbe pb p pod status container containerID st
                 = ((probe_Unknown, [], err), st)"
    using assms a e by (simp add: runProbe_def Let_def)
  ultimately show "\<exists>err. err \<noteq> NilError
             \<and> runProbe pb p pod status container containerID st
                 = ((probe_Unknown, [], err), st)"
    by blast
qed

lemma resolve_port_examples:
  "resolve_port (named_port ''http'') app_container = Some 8080"
  "resolve_port (named_port ''9090'') app_container = Some 9090"
  "resolve_port (named_port ''metrics'') app_container = None"
  "resolve_port (literal_port 70000) app_container = Some 70000"
  "resolve_port (literal_port (- 1)) app_container = Some (- 1)"
  by (simp_all add: resolve_port_def named_port_def literal_port_def app_container_def
      intstr_Int_def intstr_String_def strconv_Atoi_def is_digit_def Let_def
      syntaxError_def)

theorem runProbe_port_resolution_witness:
  "Exec (http_probe (named_port ''http'')) = None
   \<and> port_ok (named_port ''http'') app_container 8080
   \<and> runProbe flaky_prober (http_probe (named_port ''http'')) web_pod (Pod_Status web_pod)
        app_container c1 start
     = ((probe_Failure, ''no answer'', OtherError ''timeout''),
        \<lparr>world = 1,
         calls = [HTTPCall \<lparr>Scheme = ''http'', Opaque = [], URL_Host = ''10.0.0.7:8080'',
                            URL_Path = ''/healthz'', RawQuery = [], Fragment = []\<rparr>
                    Map.empty 1000000000],
         events = []\<rparr>)
   \<and> (\<forall>q. \<not> port_ok (literal_port 70000) app_container q)
   \<and> (\<exists>err. err \<noteq> NilError
         \<and> runProbe flaky_prober (http_probe (literal_port 70000)) web_pod
              (Pod_Status web_pod) app_container c1 start
           = ((probe_Unknown, [], err), start))
   \<and> port_ok (named_port ''9090'') app_container 9090
   \<and> runProbe flaky_prober (tcp_probe (named_port ''9090'')) web_pod (Pod_Status web_pod)
        app_container c1 start
     = ((probe_Failure, ''no answer'', OtherError ''timeout''),
        \<lparr>world = 1, calls = [TCPCall ''10.0.0.7'' 9090 1000000000], events = []\<rparr>)
   \<and> (\<forall>q. \<not> port_ok (named_port ''metrics'') app_container q)
   \<and> (\<exists>err. err \<noteq> NilError
         \<and> runProbe flaky_prober (tcp_probe (named_port ''metrics'')) web_pod
              (Pod_Status web_pod) app_container c1 start
           = ((probe_Unknown, [], err), start))"
proof -
  let ?h = "\<lambda>port. \<lparr>HTTPGet_Path = ''/healthz'', HTTPGet_Port = port, HTTPGet_Host = [],
                     HTTPGet_Scheme = ''http'', HTTPHeaders = []\<rparr>"
  let ?t = "\<lambda>port. \<lparr>TCPSocket_Port = port, TCPSocket_Host = []\<rparr>"
  have ok1: "port_ok (named_port ''http'') app_container 8080"
    and ok2: "port_ok (named_port ''9090'') app_container 9090"
    and bad1: "\<forall>q. \<not> port_ok (literal_port 70000) app_container q"
    and bad2: "\<forall>q. \<not> port_ok (named_port ''metrics'') app_container q"
    by (simp_all add: port_ok_def resolve_port_examples)
  have inv: "invoke flaky_prober c start
               = ((probe_Failure, ''no answer'', OtherError ''timeout''),
                  \<lparr>world = 1, calls = [c], events = []\<rparr>)" for c
    by (cases c) (simp_all add: invoke_def flaky_prober_def flaky_def start_def)
  have url: "formatURL flaky_prober ''http'' ''10.0.0.7'' 8080 ''/healthz''
               = \<lparr>Scheme = ''http'', Opaque = [], URL_Host = ''10.0.0.7:8080'',
                  URL_Path = ''/healthz'', RawQuery = [], Fragment = []\<rparr>"
    by (simp add: formatURL_def flaky_prober_def net_JoinHostPort_def strconv_Itoa_def
        decimal.simps)
  have low: "strings_ToLower flaky_prober s = s" for s
    by (simp add: flaky_prober_def)
  have r1: "runProbe flaky_prober (http_probe (named_port ''http'')) web_pod
              (Pod_Status web_pod) app_container c1 start
            = ((probe_Failure, ''no answer'', OtherError ''timeout''),
               \<lparr>world = 1,
                calls = [HTTPCall \<lparr>Scheme = ''http'', Opaque = [], URL_Host = ''10.0.0.7:8080'',
                            URL_Path = ''/healthz'', RawQuery = [], Fragment = []\<rparr>
                           Map.empty 1000000000],
                events = []\<rparr>)"
    using runProbe_port_resolution
      [where p = "http_probe (named_port ''http'')" and h = "?h (named_port ''http'')"
         and container = app_container and port = 8080 and pb = flaky_prober
         and pod = web_pod and status = "Pod_Status web_pod" and containerID = c1
         and st = start and t = "?t (named_port ''http'')"]
      ok1
    by (simp add: http_probe_def inv url low buildHeader_def web_pod_def)
  have r2: "\<exists>err. err \<noteq> NilError
         \<and> runProbe flaky_prober (http_probe (literal_port 70000)) web_pod
              (Pod_Status web_pod) app_container c1 start
           = ((probe_Unknown, [], err), start)"
    using runProbe_port_resolution
      [where p = "http_probe (literal_port 70000)" and h = "?h (literal_port 70000)"
         and container = app_container and port = 8080 and pb = flaky_prober
         and pod = web_pod and status = "Pod_Status web_pod" and containerID = c1
         and st = start and t = "?t (named_port ''http'')"]
      bad1
    by (simp add: http_probe_def)
  have r3: "runProbe flaky_prober (tcp_probe (named_port ''9090'')) web_pod
              (Pod_Status web_pod) app_container c1 start
            = ((probe_Failure, ''no answer'', OtherError ''timeout''),
               \<lparr>world = 1, calls = [TCPCall ''10.0.0.7'' 9090 1000000000], events = []\<rparr>)"
    using runProbe_port_resolution
      [where p = "tcp_probe (named_port ''9090'')" and h = "?h (named_port ''http'')"
         and container = app_container and port = 9090 and pb = flaky_prober
         and pod = web_pod and status = "Pod_Status web_pod" and containerID = c1
         and st = start and t = "?t (named_port ''9090'')"]
      ok2
    by (simp add: tcp_probe_def inv web_pod_def)
  have r4: "\<exists>err. err \<noteq> NilError
         \<and> runProbe flaky_prober (tcp_probe (named_port ''metrics'')) web_pod
              (Pod_Status web_pod) app_container c1 start
           = ((probe_Unknown, [], err), start)"
    using runProbe_port_resolution
      [where p = "tcp_probe (named_port ''metrics'')" and h = "?h (named_port ''http'')"
         and container = app_container and port = 9090 and pb = flaky_prober
         and pod = web_pod and status = "Pod_Status web_pod" and containerID = c1
         and st = start and t = "?t (named_port ''metrics'')"]
      bad2
    by (simp add: tcp_probe_def)
  have e: "Exec (http_probe (named_port ''http'')) = None"
    by (simp add: http_probe_def)
  from e ok1 r1 bad1 r2 ok2 r3 bad2 r4 show ?thesis
    by (intro conjI)
qed

section \<open>Theorems: the liveness dispatcher\<close>

lemma updatePodLiveness_loop_no_pod:
  "filter (\<lambda>q. UID q = PodUID update) ps = [] \<Longrightarrow>
     updatePodLiveness_loop sentinel update ps sent = sent"
  by (induction ps arbitrary: sent) (simp_all split: if_splits)

lemma updatePodLiveness_loop_one_pod:
  "filter (\<lambda>q. UID q = PodUID update) ps = [p] \<Longrightarrow>
     updatePodLiveness_loop sentinel update ps sent =
       (if terminal sentinel p then sent
        else sent @ [\<lparr>LivenessUpdate_namespace = Namespace p,
                      LivenessUpdate_pod = Pod_Name p\<rparr>])"
proof (induction ps arbitrary: sent)
  case Nil
  then show ?case by simp
next
  case (Cons q rest)
  show ?case
  proof (cases "UID q = PodUID update")
    case True
    with Cons.prems have "q = p" and "filter (\<lambda>q. UID q = PodUID update) rest = []"
      by simp_all
    with True show ?thesis
      by (simp add: terminal_def updatePodLiveness_loop_no_pod)
  next
    case False
    with Cons.prems have "filter (\<lambda>q. UID q = PodUID update) rest = [p]"
      by simp
    with False show ?thesis
      by (simp add: Cons.IH)
  qed
qed

text \<open>
  C4. A \<^verbatim>\<open>Failure\<close> update whose pod UID is that of one pod of the resource manager:
  when the pod is not terminal, exactly one update, with the pod's namespace and name, is
  sent on the channel after those sent before; when the pod's phase is \<^verbatim>\<open>Succeeded\<close> or
  \<^verbatim>\<open>Failed\<close>, or its status reason is the provider-failed constant, or its deletion
  timestamp is set, nothing is sent.
\<close>

theorem updatePodLiveness_Failure:
  assumes "Update_Result update = results_Failure"
    and "filter (\<lambda>q. UID q = PodUID update) (rm m) = [p]"
  shows
    "(\<not> (Phase (Pod_Status p) = PodSucceeded \<or> Phase (Pod_Status p) = PodFailed
          \<or> PodStatus_Reason (Pod_Status p) = sentinel \<or> DeletionTimestamp p \<noteq> None) \<longrightarrow>
        updates (updatePodLiveness sentinel m update) =
          updates m @ [\<lparr>LivenessUpdate_namespace = Namespace p,
                         LivenessUpdate_pod = Pod_Name p\<rparr>])
     \<and> (Phase (Pod_Status p) = PodSucceeded \<or> Phase (Pod_Status p) = PodFailed
          \<or> PodStatus_Reason (Pod_Status p) = sentinel \<or> DeletionTimestamp p \<noteq> None \<longrightarrow>
        updates (updatePodLiveness sentinel m update) = updates m)
     \<and> rm (updatePodLiveness sentinel m update) = rm m"
  using assms
  by (simp add: updatePodLiveness_def updatePodLiveness_loop_one_pod terminal_def)

theorem updatePodLiveness_Failure_witness:
  "Update_Result \<lparr>Update_ContainerID = c1, Update_Result = results_Failure, PodUID = ''u1''\<rparr>
     = results_Failure
   \<and> filter (\<lambda>q. UID q = ''u1'') [web_pod] = [web_pod]
   \<and> updates (updatePodLiveness ''ProviderFailed'' \<lparr>rm = [web_pod], updates = []\<rparr>
        \<lparr>Update_ContainerID = c1, Update_Result = results_Failure, PodUID = ''u1''\<rparr>)
     = [\<lparr>LivenessUpdate_namespace = ''default'', LivenessUpdate_pod = ''web''\<rparr>]
   \<and> filter (\<lambda>q. UID q = ''u1'') [web_pod\<lparr>DeletionTimestamp := Some 1\<rparr>]
     = [web_pod\<lparr>DeletionTimestamp := Some 1\<rparr>]
   \<and> updates (updatePodLiveness ''ProviderFailed''
        \<lparr>rm = [web_pod\<lparr>DeletionTimestamp := Some 1\<rparr>], updates = []\<rparr>
        \<lparr>Update_ContainerID = c1, Update_Result = results_Failure, PodUID = ''u1''\<rparr>)
     = []"
  using
    updatePodLiveness_Failure
      [where update = "\<lparr>Update_ContainerID = c1, Update_Result = results_Failure,
                         PodUID = ''u1''\<rparr>"
         and m = "\<lparr>rm = [web_pod], updates = []\<rparr>" and p = web_pod
         and sentinel = "''ProviderFailed''"]
    updatePodLiveness_Failure
      [where update = "\<lparr>Update_ContainerID = c1, Update_Result = results_Failure,
                         PodUID = ''u1''\<rparr>"
         and m = "\<lparr>rm = [web_pod\<lparr>DeletionTimestamp := Some 1\<rparr>], updates = []\<rparr>"
         and p = "web_pod\<lparr>DeletionTimestamp := Some 1\<rparr>"
         and sentinel = "''ProviderFailed''"]
  by (simp add: web_pod_def PodSucceeded_def PodFailed_def)

text \<open>An update that is not a failure, or for a UID no pod has, sends nothing.\<close>

lemma updatePodLiveness_dropped:
  "Update_Result update \<noteq> results_Failure \<Longrightarrow> updatePodLiveness sentinel m update = m"
  "filter (\<lambda>q. UID q = PodUID update) (rm m) = [] \<Longrightarrow>
     updatePodLiveness sentinel m update = m"
  by (simp_all add: updatePodLiveness_def updatePodLiveness_loop_no_pod)

section \<open>Theorems: the readiness tracker\<close>

text \<open>
  C1. The claim: after \<^verbatim>\<open>SetContainerReadiness(uid, cid, true)\<close> for a pod and container
  the resource manager knows, \<^verbatim>\<open>GetPodContainersReadiness\<close> returns a map in which the
  container is true. The code, in the scenario of the specification (pod \<^verbatim>\<open>web\<close> of
  namespace \<^verbatim>\<open>default\<close>, UID \<^verbatim>\<open>u1\<close>, container \<^verbatim>\<open>app\<close> with ID \<^verbatim>\<open>c1\<close>, a manager as
  \<^verbatim>\<open>NewReadinessManager\<close> makes it): the call returns, and the lookup that follows
  returns nil, in which \<^verbatim>\<open>app\<close> reads as false.
\<close>

theorem readiness_scenario_not_recorded:
  "(case SetContainerReadiness (NewReadinessManager [web_pod]) ''u1'' c1 True of
      Panic \<Rightarrow> False
    | Returns m \<Rightarrow>
        GetPodContainersReadiness m ''default'' ''web'' = None
        \<and> ready_of (GetPodContainersReadiness m ''default'' ''web'') ''app'' = False)"
  by (simp add: SetContainerReadiness_def NewReadinessManager_def web_pod_def c1_def
      ContainerID_String_def set_ready_def GetPodContainersReadiness_def ready_of_def)

text \<open>
  The cause: no call writes the field \<^verbatim>\<open>readiness\<close>. A map made for a missing namespace
  or pod stays in a local variable.
\<close>

lemma set_ready_keeps_readiness:
  "set_ready m targetPod name ready = Returns m' \<Longrightarrow>
     readiness m' = readiness m \<and> readiness_rm m' = readiness_rm m"
  by (auto simp: set_ready_def Let_def split: option.splits)

lemma SetContainerReadiness_loop_keeps_readiness:
  "SetContainerReadiness_loop m targetPod cid ready cs = Returns m' \<Longrightarrow>
     readiness m' = readiness m \<and> readiness_rm m' = readiness_rm m"
  by (induction cs) (auto split: if_splits dest: set_ready_keeps_readiness)

lemma SetContainerReadiness_keeps_readiness:
  "SetContainerReadiness m podUID containerID ready = Returns m' \<Longrightarrow>
     readiness m' = readiness m \<and> readiness_rm m' = readiness_rm m"
  by (auto simp: SetContainerReadiness_def split: option.splits
      dest: SetContainerReadiness_loop_keeps_readiness)

text \<open>With \<^verbatim>\<open>readiness\<close> nil, every call returns and every lookup afterwards is nil.\<close>

lemma set_ready_nil:
  "readiness m = Map.empty \<Longrightarrow> \<exists>m'. set_ready m targetPod name ready = Returns m'"
  by (simp add: set_ready_def Let_def)

lemma SetContainerReadiness_loop_nil:
  "readiness m = Map.empty \<Longrightarrow>
     \<exists>m'. SetContainerReadiness_loop m targetPod cid ready cs = Returns m'"
  by (induction cs) (simp_all add: set_ready_nil)

lemma SetContainerReadiness_nil:
  assumes "readiness m = Map.empty"
  shows "\<exists>m'. SetContainerReadiness m podUID containerID ready = Returns m'
              \<and> readiness m' = Map.empty
              \<and> GetPodContainersReadiness m' ns_name pod_name = None"
proof -
  obtain m' where r: "SetContainerReadiness m podUID containerID ready = Returns m'"
    using SetContainerReadiness_loop_nil [OF assms]
    by (fastforce simp: SetContainerReadiness_def split: option.splits)
  then have "readiness m' = Map.empty"
    using SetContainerReadiness_keeps_readiness assms by fastforce
  with r show ?thesis
    by (simp add: GetPodContainersReadiness_def)
qed

text \<open>
  A pod that already has a map in \<^verbatim>\<open>readiness\<close> is recorded: the write goes through the
  reference to the map the lookup returns.
\<close>

lemma set_ready_existing_entry:
  assumes "readiness m (Namespace targetPod) = Some ns"
    and "ns (Pod_Name targetPod) = Some (Some a)"
  shows "\<exists>m'. set_ready m targetPod name ready = Returns m'
              \<and> ready_of (GetPodContainersReadiness m' (Namespace targetPod)
                    (Pod_Name targetPod)) name = ready"
  using assms by (simp add: set_ready_def GetPodContainersReadiness_def ready_of_def)

text \<open>A UID no pod has, or a container ID the pod does not report, changes nothing.\<close>

lemma find_targetPod_none:
  "filter (\<lambda>q. UID q = podUID) ps = [] \<Longrightarrow> find_targetPod ps podUID target = target"
  by (induction ps arbitrary: target) (simp_all split: if_splits)

lemma SetContainerReadiness_loop_no_container:
  "filter (\<lambda>c. ContainerStatus_ContainerID c = cid) cs = [] \<Longrightarrow>
     SetContainerReadiness_loop m targetPod cid ready cs = Returns m"
  by (induction cs) (simp_all split: if_splits)

lemma SetContainerReadiness_unresolved:
  "filter (\<lambda>q. UID q = podUID) (readiness_rm m) = [] \<Longrightarrow>
     SetContainerReadiness m podUID containerID ready = Returns m"
  "find_targetPod (readiness_rm m) podUID None = Some targetPod \<Longrightarrow>
   filter (\<lambda>c. ContainerStatus_ContainerID c = ContainerID_String containerID)
     (ContainerStatuses (Pod_Status targetPod)) = [] \<Longrightarrow>
     SetContainerReadiness m podUID containerID ready = Returns m"
  by (simp_all add: SetContainerReadiness_def find_targetPod_none
      SetContainerReadiness_loop_no_container)

end
